theory Spec2Isabelle
  imports Main "HOL-Library.Word"
begin

section \<open>The OCR2VRF coordinator (core/services/ocr2/plugins/ocr2vrf/coordinator)\<close>

text \<open>
  A shallow embedding of \<^verbatim>\<open>coordinator.go\<close>. Go's fixed-width integers are words
  (\<^verbatim>\<open>uint64\<close> and \<^verbatim>\<open>int64\<close> are both \<open>64 word\<close>: the conversion \<^verbatim>\<open>uint64(x)\<close> of an
  \<^verbatim>\<open>int64\<close> keeps the bits, and only the comparison tells the two apart: \<open><\<close> is
  unsigned, \<open><s\<close> is signed). A \<^verbatim>\<open>*big.Int\<close> is an \<open>int\<close>. Byte slices, hashes and
  addresses are lists of bytes. Every error return is a value of \<open>error\<close>; a run-time
  panic (nil dereference, index out of range) is the value \<open>Panic\<close>.
\<close>

subsection \<open>Basic types\<close>

type_synonym byte = "8 word"
type_synonym uint16 = "16 word"
type_synonym uint32 = "32 word"
type_synonym uint64 = "64 word"
type_synonym int64 = "64 word"
type_synonym Hash = "byte list"
type_synonym Address = "byte list"

text \<open>
  \<^verbatim>\<open>common.BytesToHash\<close> (go-ethereum): the 32-byte hash holding the last 32 bytes of
  \<open>b\<close>, left-padded with zero bytes when \<open>b\<close> is shorter.
\<close>

definition BytesToHash :: "byte list \<Rightarrow> Hash" where
  "BytesToHash b = replicate (32 - length b) 0 @ drop (length b - 32) b"

text \<open>
  The methods of \<^verbatim>\<open>math/big.Int\<close> that the coordinator calls. \<^verbatim>\<open>Uint64\<close> returns the
  low 64 bits of the absolute value; \<^verbatim>\<open>Int64\<close> returns the same bits, negated when the
  number is negative (which is the low 64 bits of the number itself). Both are exact
  when the number is representable in the target type.
\<close>

definition big_Uint64 :: "int \<Rightarrow> uint64" where
  "big_Uint64 x = word_of_int \<bar>x\<bar>"

definition big_Int64 :: "int \<Rightarrow> int64" where
  "big_Int64 x = (if x < 0 then - word_of_int \<bar>x\<bar> else word_of_int \<bar>x\<bar>)"

text \<open>The two keys of the dedup caches (\<^verbatim>\<open>type block struct\<close>, \<^verbatim>\<open>type callback struct\<close>).\<close>

record block =
  blockHash :: Hash
  blockNumber :: uint64
  confDelay :: uint32

record callback =
  cb_blockHash :: Hash
  cb_blockNumber :: uint64
  cb_requestID :: uint64

text \<open>The zero value of \<^verbatim>\<open>common.Hash\<close>, which a struct literal leaves in an unset field.\<close>

definition zeroHash :: Hash where
  "zeroHash = replicate 32 0"

datatype error =
    Errorf string
  | Wrap error string
  | External string
  | BlockInFlight block
  | CallbackInFlight callback
  | MissingHeads nat nat
  | ItemNotFound
  | Panic string

text \<open>
  \<open>Errorf\<close> is \<^verbatim>\<open>errors.New\<close>/\<^verbatim>\<open>fmt.Errorf\<close> with a fixed message, \<open>Wrap\<close> is
  \<^verbatim>\<open>errors.Wrap\<close>, \<open>External\<close> is an error handed back by a collaborator (log poller,
  contract binding, ABI decoder). \<open>BlockInFlight b\<close> is
  \<^verbatim>\<open>errors.Errorf("Block is already in-flight %v", b)\<close>, \<open>CallbackInFlight\<close> its callback
  analogue, and \<open>MissingHeads want got\<close> is
  \<^verbatim>\<open>"could not find all heads in db: want %d got %d"\<close>.
\<close>

fun alreadyInFlight :: "error \<Rightarrow> bool" where
  "alreadyInFlight (BlockInFlight b) = True"
| "alreadyInFlight (CallbackInFlight cb) = True"
| "alreadyInFlight e = False"

subsection \<open>Eligibility\<close>

text \<open>
  \<^verbatim>\<open>
  func isBlockEligible(nextBeaconOutputHeight uint64, confDelay *big.Int, currentHeight int64) bool {
      cond := confDelay.Int64() < currentHeight
      cond = cond && (nextBeaconOutputHeight+confDelay.Uint64()) < uint64(currentHeight)
      return cond
  }
  \<close>
  The first comparison is between two \<^verbatim>\<open>int64\<close> (signed), the second between two
  \<^verbatim>\<open>uint64\<close> (unsigned), after an addition that wraps modulo \<open>2 ^ 64\<close>.
\<close>

definition isBlockEligible :: "uint64 \<Rightarrow> int \<Rightarrow> int64 \<Rightarrow> bool" where
  "isBlockEligible nextBeaconOutputHeight delay currentHeight =
     (big_Int64 delay <s currentHeight \<and>
      nextBeaconOutputHeight + big_Uint64 delay < currentHeight)"

subsection \<open>Cache keys\<close>

text \<open>
  \<^verbatim>\<open>
  func getCacheKey[T any](item T) (*common.Hash, error) {
      keyBytes, err := json.Marshal(item)
      if err != nil { return nil, err }
      key := common.BytesToHash(keyBytes)
      return &key, nil
  }
  \<close>
  \<^verbatim>\<open>getCacheKey\<close> is only ever applied to a \<^verbatim>\<open>block\<close> or a \<^verbatim>\<open>callback\<close>. Go's
  \<^verbatim>\<open>encoding/json\<close> encodes the exported (capitalised) fields of a struct and skips
  the others; every field of \<^verbatim>\<open>block\<close> and of \<^verbatim>\<open>callback\<close> is unexported, so
  \<^verbatim>\<open>json.Marshal\<close> returns the two bytes \<^verbatim>\<open>{}\<close> (0x7B, 0x7D) and no error for each of
  them. \<open>json_Marshal\<close> is that instance of the library function.
\<close>

definition json_Marshal :: "'a \<Rightarrow> error + byte list" where
  "json_Marshal item = Inr [0x7B, 0x7D]"

definition getCacheKey :: "'a \<Rightarrow> error + Hash" where
  "getCacheKey item =
     (case json_Marshal item of
        Inl err \<Rightarrow> Inl err
      | Inr keyBytes \<Rightarrow> Inr (BytesToHash keyBytes))"

subsection \<open>The dedup cache\<close>

text \<open>
  Modelled from the spec: \<^verbatim>\<open>BlockCache[T]\<close> with \<^verbatim>\<open>NewBlockCache\<close>, \<^verbatim>\<open>AddItem\<close>,
  \<^verbatim>\<open>GetItem\<close> and \<^verbatim>\<open>EvictExpiredItems\<close>, which the coordinator calls and whose
  source file is not among the sources (spec 3 and 4.3). An entry holds the item, its
  canonical hash and the height it was inserted at; the cache maps the hash to the entry
  and has a fixed eviction window. \<open>AddItem\<close> inserts or overwrites unconditionally,
  \<open>GetItem\<close> returns the item or a not-found error, and \<open>EvictExpiredItems\<close> removes
  every entry with \<open>insertedAtHeight + evictionWindow < currentHeight\<close>. Heights are
  \<^verbatim>\<open>int64\<close>, as the coordinator passes them.
\<close>

record 'k CacheEntry =
  entryKey :: 'k
  canonicalHash :: Hash
  insertedAtHeight :: int64

record 'k BlockCache =
  evictionWindow :: int64
  entries :: "Hash \<rightharpoonup> 'k CacheEntry"

definition NewBlockCache :: "int64 \<Rightarrow> 'k BlockCache" where
  "NewBlockCache window = \<lparr>evictionWindow = window, entries = Map.empty\<rparr>"

definition AddItem :: "'k BlockCache \<Rightarrow> 'k \<Rightarrow> Hash \<Rightarrow> int64 \<Rightarrow> 'k BlockCache" where
  "AddItem l x itemKey atHeight =
     l\<lparr>entries := (entries l)(itemKey \<mapsto>
          \<lparr>entryKey = x, canonicalHash = itemKey, insertedAtHeight = atHeight\<rparr>)\<rparr>"

definition GetItem :: "'k BlockCache \<Rightarrow> Hash \<Rightarrow> error + 'k" where
  "GetItem l itemKey =
     (case entries l itemKey of
        None \<Rightarrow> Inl ItemNotFound
      | Some e \<Rightarrow> Inr (entryKey e))"

definition EvictExpiredItems :: "'k BlockCache \<Rightarrow> int64 \<Rightarrow> 'k BlockCache" where
  "EvictExpiredItems l currentHeight =
     l\<lparr>entries := (\<lambda>h. case entries l h of
          None \<Rightarrow> None
        | Some e \<Rightarrow>
            if insertedAtHeight e + evictionWindow l <s currentHeight then None
            else Some e)\<rparr>"

subsection \<open>Logs, events and reports\<close>

text \<open>\<^verbatim>\<open>logpoller.Log\<close>, \<^verbatim>\<open>logpoller.LogPollerBlock\<close> and go-ethereum's \<^verbatim>\<open>types.Log\<close>.\<close>

record Log =
  lg_EventSig :: "byte list"
  lg_Topics :: "byte list list"
  lg_Data :: "byte list"
  lg_Address :: Address
  lg_BlockHash :: Hash
  lg_BlockNumber :: int64
  lg_TxHash :: Hash
  lg_LogIndex :: int64

record LogPollerBlock =
  head_BlockNumber :: int64
  head_BlockHash :: Hash

record types_Log =
  raw_Data :: "byte list"
  raw_Address :: Address
  raw_BlockHash :: Hash
  raw_BlockNumber :: uint64
  raw_Topics :: "Hash list"
  raw_TxHash :: Hash
  raw_Index :: uint64

definition toGethLog :: "Log \<Rightarrow> types_Log" where
  "toGethLog lg =
     \<lparr>raw_Data = lg_Data lg,
      raw_Address = lg_Address lg,
      raw_BlockHash = lg_BlockHash lg,
      raw_BlockNumber = lg_BlockNumber lg,
      raw_Topics = map BytesToHash (lg_Topics lg),
      raw_TxHash = lg_TxHash lg,
      raw_Index = lg_LogIndex lg\<rparr>"

text \<open>
  The decoded events of the generated contract wrapper, with the fields the coordinator
  reads. \<open>AbigenLog\<close> is what \<^verbatim>\<open>ParseLog\<close> hands back: one of the wrapper's event
  types, told apart by the type assertions of \<^verbatim>\<open>unmarshalLogs\<close>.
\<close>

record RandomnessRequested =
  rr_NextBeaconOutputHeight :: uint64
  rr_ConfDelay :: int
  rr_Raw :: types_Log

record VRFBeaconTypesCallback =
  Callback_RequestID :: int
  Callback_NumWords :: uint16
  Callback_Requester :: Address
  Callback_Arguments :: "byte list"
  Callback_GasAllowance :: int

record RandomnessFulfillmentRequested =
  rfr_NextBeaconOutputHeight :: uint64
  rfr_ConfDelay :: int
  rfr_SubID :: uint64
  rfr_Callback :: VRFBeaconTypesCallback
  rfr_Raw :: types_Log

record RandomWordsFulfilled =
  RequestIDs :: "int list"
  SuccessfulFulfillment :: "byte list"

record OutputServed =
  os_Height :: uint64
  os_ConfirmationDelay :: int

record NewTransmission =
  OutputsServed :: "OutputServed list"

datatype AbigenLog =
    Unpacked_RandomnessRequested RandomnessRequested
  | Unpacked_RandomnessFulfillmentRequested RandomnessFulfillmentRequested
  | Unpacked_RandomWordsFulfilled RandomWordsFulfilled
  | Unpacked_NewTransmission NewTransmission
  | Unpacked_Other string

record ConfigSet =
  cfg_Signers :: "Address list"
  cfg_Transmitters :: "Address list"

text \<open>The types of \<^verbatim>\<open>ocr2vrftypes\<close> that cross the coordinator's interface.\<close>

record Block =
  Hash :: Hash
  Height :: uint64
  ConfirmationDelay :: uint32

record AbstractCostedCallbackRequest =
  BeaconHeight :: uint64
  req_ConfirmationDelay :: uint32
  SubscriptionID :: uint64
  Price :: int
  RequestID :: uint64
  NumWords :: uint16
  Requester :: Address
  Arguments :: "byte list"
  GasAllowance :: int
  RequestHeight :: uint64
  RequestBlockHash :: Hash

record AbstractVRFOutput =
  BlockHeight :: uint64
  out_ConfirmationDelay :: uint32
  VRFProof :: "byte list"
  Callbacks :: "AbstractCostedCallbackRequest list"

record AbstractReport =
  Outputs :: "AbstractVRFOutput list"

record OCRCommittee =
  Signers :: "Address list"
  Transmitters :: "Address list"

subsection \<open>The coordinator and its collaborators\<close>

text \<open>
  The log poller and the contract binding are interfaces implemented elsewhere. Each is
  a record of the answers it gives during one call of the coordinator: a method with
  arguments is a function of them, \<^verbatim>\<open>LatestBlock\<close> is a single answer. \<^verbatim>\<open>GetBlocks\<close>
  returns a slice and an error, and the coordinator looks at both.
\<close>

record LogPoller =
  LatestBlock :: "error + int64"
  LogsWithSigs :: "int64 \<Rightarrow> int64 \<Rightarrow> Hash list \<Rightarrow> Address \<Rightarrow> error + Log list"
  GetBlocks :: "uint64 list \<Rightarrow> LogPollerBlock list \<times> error option"
  LatestLogByEventSigWithConfs :: "Hash \<Rightarrow> Address \<Rightarrow> int \<Rightarrow> error + Log"

record VRFBeaconCoordinator =
  ParseLog :: "types_Log \<Rightarrow> error + AbigenLog"

record coordinator =
  lp :: LogPoller
  randomnessRequestedTopic :: Hash
  randomnessFulfillmentRequestedTopic :: Hash
  randomWordsFulfilledTopic :: Hash
  configSetTopic :: Hash
  newTransmissionTopic :: Hash
  lookbackBlocks :: int64
  finalityDepth :: uint32
  coordinatorContract :: VRFBeaconCoordinator
  coordinatorAddress :: Address
  dkgAddress :: Address
  toBeTransmittedBlocks :: "block BlockCache"
  toBeTransmittedCallbacks :: "callback BlockCache"

subsection \<open>ReportWillBeTransmitted\<close>

text \<open>
  The keys the loop builds from an output and from a callback of the report
  (\<^verbatim>\<open>blockToStore\<close>, \<^verbatim>\<open>callbackToStore\<close>); the struct literals leave \<^verbatim>\<open>blockHash\<close>
  at its zero value.
\<close>

definition blockToStore :: "AbstractVRFOutput \<Rightarrow> block" where
  "blockToStore output =
     \<lparr>blockHash = zeroHash, blockNumber = BlockHeight output,
      confDelay = out_ConfirmationDelay output\<rparr>"

definition callbackToStore :: "AbstractCostedCallbackRequest \<Rightarrow> callback" where
  "callbackToStore cb =
     \<lparr>cb_blockHash = zeroHash, cb_blockNumber = BeaconHeight cb,
      cb_requestID = RequestID cb\<rparr>"

text \<open>
  The inner loop over \<^verbatim>\<open>output.Callbacks\<close> (lines 610 to 627): each callback is
  looked up in the callback cache and, when absent, appended to
  \<^verbatim>\<open>callbacksRequested\<close>; the first one found returns the error.
\<close>

fun checkCallbacks ::
  "coordinator \<Rightarrow> AbstractCostedCallbackRequest list \<Rightarrow> callback list \<Rightarrow> error + callback list"
where
  "checkCallbacks c [] callbacksRequested = Inr callbacksRequested"
| "checkCallbacks c (cb # cbs) callbacksRequested =
     (case getCacheKey (callbackToStore cb) of
        Inl err \<Rightarrow>
          Inl (Wrap err ''Getting callback cache key in ReportWillBeTransmitted'')
      | Inr key \<Rightarrow>
          (case GetItem (toBeTransmittedCallbacks c) key of
             Inr found \<Rightarrow> Inl (CallbackInFlight (callbackToStore cb))
           | Inl notFound \<Rightarrow>
               checkCallbacks c cbs (callbacksRequested @ [callbackToStore cb])))"

text \<open>
  The outer loop over \<^verbatim>\<open>report.Outputs\<close> (lines 588 to 628), with the two slices it
  fills. An output with an empty proof contributes no block, only its callbacks.
\<close>

fun checkOutputs ::
  "coordinator \<Rightarrow> AbstractVRFOutput list \<Rightarrow> block list \<Rightarrow> callback list
     \<Rightarrow> error + (block list \<times> callback list)"
where
  "checkOutputs c [] blocksRequested callbacksRequested =
     Inr (blocksRequested, callbacksRequested)"
| "checkOutputs c (output # outputs) blocksRequested callbacksRequested =
     (if length (VRFProof output) > 0 then
        (case getCacheKey (blockToStore output) of
           Inl err \<Rightarrow>
             Inl (Wrap err ''Getting block cache key in ReportWillBeTransmitted'')
         | Inr key \<Rightarrow>
             (case GetItem (toBeTransmittedBlocks c) key of
                Inr found \<Rightarrow> Inl (BlockInFlight (blockToStore output))
              | Inl notFound \<Rightarrow>
                  (case checkCallbacks c (Callbacks output) callbacksRequested of
                     Inl err \<Rightarrow> Inl err
                   | Inr callbacksRequested' \<Rightarrow>
                       checkOutputs c outputs (blocksRequested @ [blockToStore output])
                         callbacksRequested')))
      else
        (case checkCallbacks c (Callbacks output) callbacksRequested of
           Inl err \<Rightarrow> Inl err
         | Inr callbacksRequested' \<Rightarrow>
             checkOutputs c outputs blocksRequested callbacksRequested'))"

text \<open>
  The two insertion loops (lines 636 to 651). Each returns the error of
  \<^verbatim>\<open>getCacheKey\<close> from the middle of the loop, keeping what it has inserted so far.
\<close>

fun addBlocks :: "block BlockCache \<Rightarrow> block list \<Rightarrow> int64 \<Rightarrow> error option \<times> block BlockCache"
where
  "addBlocks l [] latestBlock = (None, l)"
| "addBlocks l (b # bs) latestBlock =
     (case getCacheKey b of
        Inl err \<Rightarrow>
          (Some (Wrap err ''Getting block cache key in ReportWillBeTransmitted''), l)
      | Inr key \<Rightarrow> addBlocks (AddItem l b key latestBlock) bs latestBlock)"

fun addCallbacks ::
  "callback BlockCache \<Rightarrow> callback list \<Rightarrow> int64 \<Rightarrow> error option \<times> callback BlockCache"
where
  "addCallbacks l [] latestBlock = (None, l)"
| "addCallbacks l (cb # cbs) latestBlock =
     (case getCacheKey cb of
        Inl err \<Rightarrow>
          (Some (Wrap err ''Getting callback cache key in ReportWillBeTransmitted''), l)
      | Inr key \<Rightarrow> addCallbacks (AddItem l cb key latestBlock) cbs latestBlock)"

text \<open>
  \<^verbatim>\<open>ReportWillBeTransmitted\<close> returns its error (\<open>None\<close> is \<^verbatim>\<open>nil\<close>) and the
  coordinator as the call leaves it. The mutex it holds throughout makes the call one
  atomic step.
\<close>

definition ReportWillBeTransmitted ::
  "coordinator \<Rightarrow> AbstractReport \<Rightarrow> error option \<times> coordinator"
where
  "ReportWillBeTransmitted c report =
     (case checkOutputs c (Outputs report) [] [] of
        Inl err \<Rightarrow> (Some err, c)
      | Inr (blocksRequested, callbacksRequested) \<Rightarrow>
          (case LatestBlock (lp c) of
             Inl err \<Rightarrow>
               (Some (Wrap err ''Getting latest block in ReportWillBeTransmitted''), c)
           | Inr latestBlock \<Rightarrow>
               (case addBlocks (toBeTransmittedBlocks c) blocksRequested latestBlock of
                  (Some err, blocks') \<Rightarrow> (Some err, c\<lparr>toBeTransmittedBlocks := blocks'\<rparr>)
                | (None, blocks') \<Rightarrow>
                    (case addCallbacks (toBeTransmittedCallbacks c) callbacksRequested
                            latestBlock of
                       (Some err, callbacks') \<Rightarrow>
                         (Some err, c\<lparr>toBeTransmittedBlocks := blocks',
                                       toBeTransmittedCallbacks := callbacks'\<rparr>)
                     | (None, callbacks') \<Rightarrow>
                         (None,
                          c\<lparr>toBeTransmittedBlocks := EvictExpiredItems blocks' latestBlock,
                            toBeTransmittedCallbacks :=
                              EvictExpiredItems callbacks' latestBlock\<rparr>)))))"

subsection \<open>unmarshalLogs\<close>

text \<open>
  The loop of \<^verbatim>\<open>unmarshalLogs\<close> over the logs, with the five named results as its
  state. The first three slices only ever receive a decoded event. The fourth is a
  slice of pointers that can receive \<^verbatim>\<open>nil\<close>: an element is \<open>Some nt\<close> or \<open>None\<close>.
  Each failing branch sets \<^verbatim>\<open>err\<close> and returns the named results as they are; the
  branch for a failed type assertion on a NewTransmission log (lines 562 to 566) sets
  \<^verbatim>\<open>err\<close>, has no \<^verbatim>\<open>return\<close>, appends the \<^verbatim>\<open>nil\<close> pointer and goes on with the
  next log. A log of any other signature is logged and skipped.
\<close>

fun unmarshalLoop ::
  "coordinator \<Rightarrow> Log list \<Rightarrow> RandomnessRequested list
     \<Rightarrow> RandomnessFulfillmentRequested list \<Rightarrow> RandomWordsFulfilled list
     \<Rightarrow> NewTransmission option list \<Rightarrow> error option
     \<Rightarrow> RandomnessRequested list \<times> RandomnessFulfillmentRequested list
         \<times> RandomWordsFulfilled list \<times> NewTransmission option list \<times> error option"
where
  "unmarshalLoop c [] rrLogs rfrLogs rwfLogs ntLogs err =
     (rrLogs, rfrLogs, rwfLogs, ntLogs, err)"
| "unmarshalLoop c (lg # logs) rrLogs rfrLogs rwfLogs ntLogs err =
     (let rawLog = toGethLog lg in
      if lg_EventSig lg = randomnessRequestedTopic c then
        (case ParseLog (coordinatorContract c) rawLog of
           Inl err2 \<Rightarrow>
             (rrLogs, rfrLogs, rwfLogs, ntLogs,
              Some (Wrap err2 ''unmarshal RandomnessRequested log''))
         | Inr unpacked \<Rightarrow>
             (case unpacked of
                Unpacked_RandomnessRequested rr \<Rightarrow>
                  unmarshalLoop c logs (rrLogs @ [rr]) rfrLogs rwfLogs ntLogs err
              | _ \<Rightarrow>
                  (rrLogs, rfrLogs, rwfLogs, ntLogs,
                   Some (Errorf ''cast to *VRFBeaconCoordinatorRandomnessRequested''))))
      else if lg_EventSig lg = randomnessFulfillmentRequestedTopic c then
        (case ParseLog (coordinatorContract c) rawLog of
           Inl err2 \<Rightarrow>
             (rrLogs, rfrLogs, rwfLogs, ntLogs,
              Some (Wrap err2 ''unmarshal RandomnessFulfillmentRequested log''))
         | Inr unpacked \<Rightarrow>
             (case unpacked of
                Unpacked_RandomnessFulfillmentRequested rfr \<Rightarrow>
                  unmarshalLoop c logs rrLogs (rfrLogs @ [rfr]) rwfLogs ntLogs err
              | _ \<Rightarrow>
                  (rrLogs, rfrLogs, rwfLogs, ntLogs,
                   Some (Errorf
                     ''cast to *VRFBeaconCoordinatorRandomnessFulfillmentRequested''))))
      else if lg_EventSig lg = randomWordsFulfilledTopic c then
        (case ParseLog (coordinatorContract c) rawLog of
           Inl err2 \<Rightarrow>
             (rrLogs, rfrLogs, rwfLogs, ntLogs,
              Some (Wrap err2 ''unmarshal RandomWordsFulfilled log''))
         | Inr unpacked \<Rightarrow>
             (case unpacked of
                Unpacked_RandomWordsFulfilled rwf \<Rightarrow>
                  unmarshalLoop c logs rrLogs rfrLogs (rwfLogs @ [rwf]) ntLogs err
              | _ \<Rightarrow>
                  (rrLogs, rfrLogs, rwfLogs, ntLogs,
                   Some (Errorf ''cast to *VRFBeaconCoordinatorRandomWordsFulfilled''))))
      else if lg_EventSig lg = newTransmissionTopic c then
        (case ParseLog (coordinatorContract c) rawLog of
           Inl err2 \<Rightarrow>
             (rrLogs, rfrLogs, rwfLogs, ntLogs,
              Some (Wrap err2 ''unmarshal NewTransmission log''))
         | Inr unpacked \<Rightarrow>
             (case unpacked of
                Unpacked_NewTransmission nt \<Rightarrow>
                  unmarshalLoop c logs rrLogs rfrLogs rwfLogs (ntLogs @ [Some nt]) err
              | _ \<Rightarrow>
                  unmarshalLoop c logs rrLogs rfrLogs rwfLogs (ntLogs @ [None])
                    (Some (Errorf
                       ''cast to *vrf_wrapper.VRFBeaconCoordinatorNewTransmission''))))
      else unmarshalLoop c logs rrLogs rfrLogs rwfLogs ntLogs err)"

definition unmarshalLogs ::
  "coordinator \<Rightarrow> Log list
     \<Rightarrow> RandomnessRequested list \<times> RandomnessFulfillmentRequested list
         \<times> RandomWordsFulfilled list \<times> NewTransmission option list \<times> error option"
where
  "unmarshalLogs c logs = unmarshalLoop c logs [] [] [] [] None"

subsection \<open>The eligibility filters\<close>

text \<open>
  \<^verbatim>\<open>confirmationDelays\<close> is a \<^verbatim>\<open>map[uint32]struct{}\<close>, that is a set; the lookup key
  is \<^verbatim>\<open>uint32(r.ConfDelay.Uint64())\<close>, the low 32 bits of the delay.
\<close>

definition delayKey :: "int \<Rightarrow> uint32" where
  "delayKey delay = ucast (big_Uint64 delay)"

fun filterEligibleRandomnessRequests ::
  "coordinator \<Rightarrow> RandomnessRequested list \<Rightarrow> uint32 set \<Rightarrow> int64 \<Rightarrow> error + block list"
where
  "filterEligibleRandomnessRequests c [] confirmationDelays currentHeight = Inr []"
| "filterEligibleRandomnessRequests c (r # rs) confirmationDelays currentHeight =
     (if delayKey (rr_ConfDelay r) \<notin> confirmationDelays then
        filterEligibleRandomnessRequests c rs confirmationDelays currentHeight
      else
        (let b = \<lparr>blockHash = zeroHash, blockNumber = rr_NextBeaconOutputHeight r,
                  confDelay = delayKey (rr_ConfDelay r)\<rparr>
         in case getCacheKey b of
              Inl err \<Rightarrow> Inl err
            | Inr cacheKey \<Rightarrow>
                (case filterEligibleRandomnessRequests c rs confirmationDelays currentHeight of
                   Inl err \<Rightarrow> Inl err
                 | Inr unfulfilled \<Rightarrow>
                     (case GetItem (toBeTransmittedBlocks c) cacheKey of
                        Inl notFound \<Rightarrow>
                          if isBlockEligible (rr_NextBeaconOutputHeight r) (rr_ConfDelay r)
                               currentHeight
                          then Inr (b # unfulfilled)
                          else Inr unfulfilled
                      | Inr transmittedBlock \<Rightarrow> Inr unfulfilled))))"

text \<open>
  \<^verbatim>\<open>filterEligibleCallbacks\<close> returns the request logs it keeps and the block of each.
\<close>

fun filterEligibleCallbacks ::
  "coordinator \<Rightarrow> RandomnessFulfillmentRequested list \<Rightarrow> uint32 set \<Rightarrow> int64
     \<Rightarrow> error + (RandomnessFulfillmentRequested list \<times> block list)"
where
  "filterEligibleCallbacks c [] confirmationDelays currentHeight = Inr ([], [])"
| "filterEligibleCallbacks c (r # rs) confirmationDelays currentHeight =
     (if delayKey (rfr_ConfDelay r) \<notin> confirmationDelays then
        filterEligibleCallbacks c rs confirmationDelays currentHeight
      else
        (case getCacheKey
                \<lparr>cb_blockHash = zeroHash, cb_blockNumber = rfr_NextBeaconOutputHeight r,
                 cb_requestID = big_Uint64 (Callback_RequestID (rfr_Callback r))\<rparr> of
           Inl err \<Rightarrow> Inl err
         | Inr cacheKey \<Rightarrow>
             (case filterEligibleCallbacks c rs confirmationDelays currentHeight of
                Inl err \<Rightarrow> Inl err
              | Inr (callbacks, unfulfilled) \<Rightarrow>
                  (case GetItem (toBeTransmittedCallbacks c) cacheKey of
                     Inl notFound \<Rightarrow>
                       if isBlockEligible (rfr_NextBeaconOutputHeight r) (rfr_ConfDelay r)
                            currentHeight
                       then Inr (r # callbacks,
                                 \<lparr>blockHash = zeroHash,
                                  blockNumber = rfr_NextBeaconOutputHeight r,
                                  confDelay = delayKey (rfr_ConfDelay r)\<rparr> # unfulfilled)
                       else Inr (callbacks, unfulfilled)
                   | Inr transmittedCallback \<Rightarrow> Inr (callbacks, unfulfilled)))))"

fun filterUnfulfilledCallbacks ::
  "RandomnessFulfillmentRequested list \<Rightarrow> uint64 set \<Rightarrow> uint32 set \<Rightarrow> int64
     \<Rightarrow> AbstractCostedCallbackRequest list"
where
  "filterUnfulfilledCallbacks [] fulfilledRequestIDs confirmationDelays currentHeight = []"
| "filterUnfulfilledCallbacks (r # rs) fulfilledRequestIDs confirmationDelays currentHeight =
     (let requestID = Callback_RequestID (rfr_Callback r);
          callbacks =
            filterUnfulfilledCallbacks rs fulfilledRequestIDs confirmationDelays currentHeight
      in if big_Uint64 requestID \<notin> fulfilledRequestIDs then
           (if delayKey (rfr_ConfDelay r) \<notin> confirmationDelays then callbacks
            else if isBlockEligible (rfr_NextBeaconOutputHeight r) (rfr_ConfDelay r)
                      currentHeight
            then \<lparr>BeaconHeight = rfr_NextBeaconOutputHeight r,
                  req_ConfirmationDelay = delayKey (rfr_ConfDelay r),
                  SubscriptionID = rfr_SubID r,
                  Price = 0,
                  RequestID = big_Uint64 requestID,
                  NumWords = Callback_NumWords (rfr_Callback r),
                  Requester = Callback_Requester (rfr_Callback r),
                  Arguments = Callback_Arguments (rfr_Callback r),
                  GasAllowance = Callback_GasAllowance (rfr_Callback r),
                  RequestHeight = raw_BlockNumber (rfr_Raw r),
                  RequestBlockHash = raw_BlockHash (rfr_Raw r)\<rparr> # callbacks
            else callbacks)
         else callbacks)"

subsection \<open>ReportBlocks\<close>

text \<open>
  \<^verbatim>\<open>getFulfilledBlocks\<close> reads \<^verbatim>\<open>r.OutputsServed\<close> of every element of the slice of
  pointers; on a \<^verbatim>\<open>nil\<close> element that read is a nil dereference, and the run panics.
\<close>

definition servedBlock :: "OutputServed \<Rightarrow> block" where
  "servedBlock o' =
     \<lparr>blockHash = zeroHash, blockNumber = os_Height o',
      confDelay = delayKey (os_ConfirmationDelay o')\<rparr>"

fun getFulfilledBlocks :: "NewTransmission option list \<Rightarrow> error + block list" where
  "getFulfilledBlocks [] = Inr []"
| "getFulfilledBlocks (None # rs) = Inl (Panic ''nil pointer dereference'')"
| "getFulfilledBlocks (Some r # rs) =
     (case getFulfilledBlocks rs of
        Inl err \<Rightarrow> Inl err
      | Inr fulfilled \<Rightarrow> Inr (map servedBlock (OutputsServed r) @ fulfilled))"

text \<open>
  \<^verbatim>\<open>getFulfilledRequestIDs\<close>: the inner loop runs over the indices of
  \<^verbatim>\<open>r.RequestIDs\<close> and reads \<^verbatim>\<open>r.SuccessfulFulfillment[i]\<close>, which is out of range
  when that slice is the shorter one. The result is a \<^verbatim>\<open>map[uint64]struct{}\<close>, a set.
\<close>

fun fulfilledIn :: "int list \<Rightarrow> byte list \<Rightarrow> uint64 set \<Rightarrow> error + uint64 set" where
  "fulfilledIn [] successful fulfilledRequestIDs = Inr fulfilledRequestIDs"
| "fulfilledIn (requestID # requestIDs) [] fulfilledRequestIDs =
     Inl (Panic ''index out of range'')"
| "fulfilledIn (requestID # requestIDs) (s # successful) fulfilledRequestIDs =
     fulfilledIn requestIDs successful
       (if s = 1 then insert (big_Uint64 requestID) fulfilledRequestIDs
        else fulfilledRequestIDs)"

fun getFulfilledRequestIDsFrom ::
  "RandomWordsFulfilled list \<Rightarrow> uint64 set \<Rightarrow> error + uint64 set"
where
  "getFulfilledRequestIDsFrom [] fulfilledRequestIDs = Inr fulfilledRequestIDs"
| "getFulfilledRequestIDsFrom (r # rs) fulfilledRequestIDs =
     (case fulfilledIn (RequestIDs r) (SuccessfulFulfillment r) fulfilledRequestIDs of
        Inl err \<Rightarrow> Inl err
      | Inr fulfilledRequestIDs' \<Rightarrow> getFulfilledRequestIDsFrom rs fulfilledRequestIDs')"

definition getFulfilledRequestIDs :: "RandomWordsFulfilled list \<Rightarrow> error + uint64 set" where
  "getFulfilledRequestIDs randomWordsFulfilledLogs =
     getFulfilledRequestIDsFrom randomWordsFulfilledLogs {}"

text \<open>
  \<^verbatim>\<open>getBlockhashesMapping\<close> compares only the number of heads with the number of
  heights it asked for, and then keys each hash by \<^verbatim>\<open>uint64(head.BlockNumber)\<close>. The
  error of \<^verbatim>\<open>GetBlocks\<close> is assigned to the named result and returned with the map
  when the two lengths agree; every caller drops the map when the error is set.
\<close>

definition getBlockhashesMapping ::
  "coordinator \<Rightarrow> uint64 list \<Rightarrow> error + (uint64 \<rightharpoonup> Hash)"
where
  "getBlockhashesMapping c blockNumbers =
     (case GetBlocks (lp c) blockNumbers of
        (heads, err) \<Rightarrow>
          if length heads \<noteq> length blockNumbers then
            Inl (MissingHeads (length blockNumbers) (length heads))
          else
            (case err of
               Some e \<Rightarrow> Inl e
             | None \<Rightarrow>
                 Inr (fold (\<lambda>head m. m(head_BlockNumber head \<mapsto> head_BlockHash head))
                        heads Map.empty)))"

text \<open>
  \<^verbatim>\<open>rawBlocksRequested\<close> is a \<^verbatim>\<open>map[uint64]struct{}\<close> filled by two loops, and
  \<^verbatim>\<open>requestedBlockNumbers\<close> lists its keys. Go leaves the order of a \<^verbatim>\<open>range\<close> over a
  map unspecified; \<open>remdups\<close> lists each key once, in one of the possible orders.
\<close>

definition requestedBlockNumbers ::
  "RandomnessRequested list \<Rightarrow> RandomnessFulfillmentRequested list \<Rightarrow> int64 \<Rightarrow> uint64 list"
where
  "requestedBlockNumbers randomnessRequestedLogs randomnessFulfillmentRequestedLogs
       currentHeight =
     remdups
       (map rr_NextBeaconOutputHeight
          (filter (\<lambda>l. isBlockEligible (rr_NextBeaconOutputHeight l) (rr_ConfDelay l)
                          currentHeight)
             randomnessRequestedLogs) @
        map rfr_NextBeaconOutputHeight
          (filter (\<lambda>l. isBlockEligible (rfr_NextBeaconOutputHeight l) (rfr_ConfDelay l)
                          currentHeight)
             randomnessFulfillmentRequestedLogs))"

definition getBlockhashesMappingFromRequests ::
  "coordinator \<Rightarrow> RandomnessRequested list \<Rightarrow> RandomnessFulfillmentRequested list
     \<Rightarrow> int64 \<Rightarrow> error + (uint64 \<rightharpoonup> Hash)"
where
  "getBlockhashesMappingFromRequests c randomnessRequestedLogs
       randomnessFulfillmentRequestedLogs currentHeight =
     (case getBlockhashesMapping c
             (requestedBlockNumbers randomnessRequestedLogs
                randomnessFulfillmentRequestedLogs currentHeight) of
        Inl err \<Rightarrow> Inl (Wrap err ''get blockhashes for ReportBlocks'')
      | Inr blockhashesMapping \<Rightarrow> Inr blockhashesMapping)"

text \<open>
  \<^verbatim>\<open>blocksRequested\<close> is a \<^verbatim>\<open>map[block]struct{}\<close>: the blocks of the two filters, each
  once, less the fulfilled ones. \<^verbatim>\<open>blockhashesMapping[n]\<close> is the zero hash when \<open>n\<close>
  is not a key of the map.
\<close>

definition blocksRequested :: "block list \<Rightarrow> block list \<Rightarrow> block list \<Rightarrow> block list" where
  "blocksRequested unfulfilled unfulfilled' fulfilledBlocks =
     filter (\<lambda>b. b \<notin> set fulfilledBlocks) (remdups (unfulfilled @ unfulfilled'))"

definition reportBlock :: "(uint64 \<rightharpoonup> Hash) \<Rightarrow> block \<Rightarrow> Block" where
  "reportBlock blockhashesMapping b =
     \<lparr>Hash = (case blockhashesMapping (blockNumber b) of
                None \<Rightarrow> zeroHash
              | Some h \<Rightarrow> h),
      Height = blockNumber b,
      ConfirmationDelay = confDelay b\<rparr>"

definition ReportBlocks ::
  "coordinator \<Rightarrow> uint32 set \<Rightarrow> error + (Block list \<times> AbstractCostedCallbackRequest list)"
where
  "ReportBlocks c confirmationDelays =
     (case LatestBlock (lp c) of
        Inl err \<Rightarrow> Inl (Wrap err ''header by number'')
      | Inr currentHeight \<Rightarrow>
     (case LogsWithSigs (lp c) (currentHeight - lookbackBlocks c) currentHeight
             [randomnessRequestedTopic c, randomnessFulfillmentRequestedTopic c,
              randomWordsFulfilledTopic c, newTransmissionTopic c]
             (coordinatorAddress c) of
        Inl err \<Rightarrow> Inl (Wrap err ''logs with topics'')
      | Inr logs \<Rightarrow>
     (case unmarshalLogs c logs of
        (randomnessRequestedLogs, randomnessFulfillmentRequestedLogs,
         randomWordsFulfilledLogs, newTransmissionLogs, Some err) \<Rightarrow>
          Inl (Wrap err ''unmarshal logs'')
      | (randomnessRequestedLogs, randomnessFulfillmentRequestedLogs,
         randomWordsFulfilledLogs, newTransmissionLogs, None) \<Rightarrow>
     (case getBlockhashesMappingFromRequests c randomnessRequestedLogs
             randomnessFulfillmentRequestedLogs currentHeight of
        Inl err \<Rightarrow> Inl (Wrap err ''get blockhashes in ReportBlocks'')
      | Inr blockhashesMapping \<Rightarrow>
     (case filterEligibleRandomnessRequests c randomnessRequestedLogs confirmationDelays
             currentHeight of
        Inl err \<Rightarrow> Inl (Wrap err ''filter requests in ReportBlocks'')
      | Inr unfulfilled \<Rightarrow>
     (case filterEligibleCallbacks c randomnessFulfillmentRequestedLogs confirmationDelays
             currentHeight of
        Inl err \<Rightarrow> Inl (Wrap err ''filter clalbacks in ReportBlocks'')
      | Inr (callbacksRequested, unfulfilled') \<Rightarrow>
     (case getFulfilledBlocks newTransmissionLogs of
        Inl panic \<Rightarrow> Inl panic
      | Inr fulfilledBlocks \<Rightarrow>
     (case getFulfilledRequestIDs randomWordsFulfilledLogs of
        Inl panic \<Rightarrow> Inl panic
      | Inr fulfilledRequestIDs \<Rightarrow>
          Inr (map (reportBlock blockhashesMapping)
                 (blocksRequested unfulfilled unfulfilled' fulfilledBlocks),
               filterUnfulfilledCallbacks callbacksRequested fulfilledRequestIDs
                 confirmationDelays currentHeight)))))))))"

subsection \<open>DKGVRFCommittees\<close>

text \<open>
  The loop \<^verbatim>\<open>for i := range log.Signers\<close> appends \<^verbatim>\<open>log.Signers[i]\<close> and
  \<^verbatim>\<open>log.Transmitters[i]\<close> to the committee. The index runs over the signers, so the
  first read is in range; the second is checked here as Go's run time checks it.
\<close>

fun appendCommittee ::
  "ConfigSet \<Rightarrow> nat list \<Rightarrow> OCRCommittee \<Rightarrow> error + OCRCommittee"
where
  "appendCommittee configSetLog [] committee = Inr committee"
| "appendCommittee configSetLog (i # indices) committee =
     (if i < length (cfg_Transmitters configSetLog) then
        appendCommittee configSetLog indices
          \<lparr>Signers = Signers committee @ [cfg_Signers configSetLog ! i],
           Transmitters = Transmitters committee @ [cfg_Transmitters configSetLog ! i]\<rparr>
      else Inl (Panic ''index out of range''))"

definition committeeOf :: "ConfigSet \<Rightarrow> error + OCRCommittee" where
  "committeeOf configSetLog =
     appendCommittee configSetLog [0 ..< length (cfg_Signers configSetLog)]
       \<lparr>Signers = [], Transmitters = []\<rparr>"

text \<open>
  \<^verbatim>\<open>vrfABI.UnpackIntoInterface\<close> and \<^verbatim>\<open>dkgABI.UnpackIntoInterface\<close> decode the data of
  a ConfigSet log; the two decoders are parameters. The result is the pair
  \<open>(dkgCommittee, vrfCommittee)\<close>.
\<close>

definition DKGVRFCommittees ::
  "coordinator \<Rightarrow> (byte list \<Rightarrow> error + ConfigSet) \<Rightarrow> (byte list \<Rightarrow> error + ConfigSet)
     \<Rightarrow> error + (OCRCommittee \<times> OCRCommittee)"
where
  "DKGVRFCommittees c vrfABI_Unpack dkgABI_Unpack =
     (case LatestLogByEventSigWithConfs (lp c) (configSetTopic c) (coordinatorAddress c)
             (uint (finalityDepth c)) of
        Inl err \<Rightarrow> Inl (Wrap err ''latest vrf ConfigSet by sig with confs'')
      | Inr latestVRF \<Rightarrow>
     (case LatestLogByEventSigWithConfs (lp c) (configSetTopic c) (dkgAddress c)
             (uint (finalityDepth c)) of
        Inl err \<Rightarrow> Inl (Wrap err ''latest dkg ConfigSet by sig with confs'')
      | Inr latestDKG \<Rightarrow>
     (case vrfABI_Unpack (lg_Data latestVRF) of
        Inl err \<Rightarrow> Inl (Wrap err ''unpack vrf ConfigSet into interface'')
      | Inr vrfConfigSetLog \<Rightarrow>
     (case dkgABI_Unpack (lg_Data latestDKG) of
        Inl err \<Rightarrow> Inl (Wrap err ''unpack dkg ConfigSet into interface'')
      | Inr dkgConfigSetLog \<Rightarrow>
     (case committeeOf vrfConfigSetLog of
        Inl panic \<Rightarrow> Inl panic
      | Inr vrfCommittee \<Rightarrow>
     (case committeeOf dkgConfigSetLog of
        Inl panic \<Rightarrow> Inl panic
      | Inr dkgCommittee \<Rightarrow> Inr (dkgCommittee, vrfCommittee)))))))"

section \<open>Example data\<close>

text \<open>
  A contract binding in the manner of the generated wrapper: \<open>exampleParseLog\<close>
  chooses the event type by the first topic of the log and decodes the fields from the
  data bytes (height and delay; height, delay and request; served height and delay;
  request and success flag).
\<close>

definition exampleRaw :: types_Log where
  "exampleRaw =
     \<lparr>raw_Data = [], raw_Address = [0xC0], raw_BlockHash = zeroHash, raw_BlockNumber = 89,
      raw_Topics = [], raw_TxHash = zeroHash, raw_Index = 0\<rparr>"

definition exampleRandomnessRequested :: "uint64 \<Rightarrow> int \<Rightarrow> RandomnessRequested" where
  "exampleRandomnessRequested height delay =
     \<lparr>rr_NextBeaconOutputHeight = height, rr_ConfDelay = delay, rr_Raw = exampleRaw\<rparr>"

definition exampleRequest :: "uint64 \<Rightarrow> int \<Rightarrow> int \<Rightarrow> RandomnessFulfillmentRequested" where
  "exampleRequest height delay requestID =
     \<lparr>rfr_NextBeaconOutputHeight = height, rfr_ConfDelay = delay, rfr_SubID = 1,
      rfr_Callback =
        \<lparr>Callback_RequestID = requestID, Callback_NumWords = 1,
         Callback_Requester = [0xAA], Callback_Arguments = [],
         Callback_GasAllowance = 100000\<rparr>,
      rfr_Raw = exampleRaw\<rparr>"

fun exampleDecode :: "Hash \<Rightarrow> byte list \<Rightarrow> error + AbigenLog" where
  "exampleDecode topic [x, y] =
     (if topic = BytesToHash [1] then
        Inr (Unpacked_RandomnessRequested (exampleRandomnessRequested (ucast x) (uint y)))
      else if topic = BytesToHash [3] then
        Inr (Unpacked_RandomWordsFulfilled
               \<lparr>RequestIDs = [uint x], SuccessfulFulfillment = [y]\<rparr>)
      else if topic = BytesToHash [5] then
        Inr (Unpacked_NewTransmission
               \<lparr>OutputsServed = [\<lparr>os_Height = ucast x, os_ConfirmationDelay = uint y\<rparr>]\<rparr>)
      else Inl (External ''abigen wrapper received unknown log topic''))"
| "exampleDecode topic [x, y, z] =
     (if topic = BytesToHash [2] then
        Inr (Unpacked_RandomnessFulfillmentRequested (exampleRequest (ucast x) (uint y) (uint z)))
      else Inl (External ''abigen wrapper received unknown log topic''))"
| "exampleDecode topic bytes = Inl (External ''abi: cannot unmarshal'')"

definition exampleParseLog :: "types_Log \<Rightarrow> error + AbigenLog" where
  "exampleParseLog rawLog =
     (case raw_Topics rawLog of
        [] \<Rightarrow> Inl (External ''abigen wrapper received log without topics'')
      | topic # topics \<Rightarrow> exampleDecode topic (raw_Data rawLog))"

text \<open>
  A log as the log poller stores it, with its event signature as first topic, and a
  coordinator at chain height 100 with empty caches of eviction window 10, whose log
  poller serves six logs: two randomness requests (height 90 with delay 3, height 92
  with delay 7), a fulfillment request (height 95, delay 0, request 7), a transmission
  that served height 95 with delay 0, a RandomWordsFulfilled log reporting request 7
  as failed, and a log of an unknown signature. \<^verbatim>\<open>GetBlocks\<close> finds a head for every
  height asked for.
\<close>

definition exampleLog :: "byte list \<Rightarrow> byte list \<Rightarrow> Log" where
  "exampleLog eventSig bytes =
     \<lparr>lg_EventSig = eventSig, lg_Topics = [eventSig], lg_Data = bytes, lg_Address = [0xC0],
      lg_BlockHash = zeroHash, lg_BlockNumber = 89, lg_TxHash = zeroHash, lg_LogIndex = 0\<rparr>"

definition exampleLogs :: "Log list" where
  "exampleLogs =
     [exampleLog (BytesToHash [1]) [90, 3], exampleLog (BytesToHash [1]) [92, 7],
      exampleLog (BytesToHash [2]) [95, 0, 7], exampleLog (BytesToHash [5]) [95, 0],
      exampleLog (BytesToHash [3]) [7, 0], exampleLog (BytesToHash [9]) []]"

definition exampleHead :: "uint64 \<Rightarrow> LogPollerBlock" where
  "exampleHead number =
     \<lparr>head_BlockNumber = number, head_BlockHash = replicate 32 (ucast number)\<rparr>"

definition exampleCoordinator :: coordinator where
  "exampleCoordinator =
     \<lparr>lp = \<lparr>LatestBlock = Inr 100,
             LogsWithSigs = (\<lambda>start end' eventSigs address. Inr exampleLogs),
             GetBlocks = (\<lambda>numbers. (map exampleHead numbers, None)),
             LatestLogByEventSigWithConfs =
               (\<lambda>eventSig address confs. Inr (exampleLog eventSig address))\<rparr>,
      randomnessRequestedTopic = BytesToHash [1],
      randomnessFulfillmentRequestedTopic = BytesToHash [2],
      randomWordsFulfilledTopic = BytesToHash [3],
      configSetTopic = BytesToHash [4],
      newTransmissionTopic = BytesToHash [5],
      lookbackBlocks = 1000,
      finalityDepth = 5,
      coordinatorContract = \<lparr>ParseLog = exampleParseLog\<rparr>,
      coordinatorAddress = [0xC0],
      dkgAddress = [0xD0],
      toBeTransmittedBlocks = NewBlockCache 10,
      toBeTransmittedCallbacks = NewBlockCache 10\<rparr>"

text \<open>
  Two logs for \<open>unmarshalLogs\<close>: the first has the NewTransmission signature in its
  event-signature column and the RandomnessRequested topic as first topic, so the
  binding decodes it as a RandomnessRequested event; the second is a regular
  RandomnessRequested log.
\<close>

definition mismatchedLogs :: "Log list" where
  "mismatchedLogs =
     [(exampleLog (BytesToHash [5]) [95, 0])\<lparr>lg_Topics := [BytesToHash [1]]\<rparr>,
      exampleLog (BytesToHash [1]) [90, 3]]"

text \<open>Reports: outputs with or without a proof, and callbacks they serve.\<close>

definition exampleOutput ::
  "uint64 \<Rightarrow> uint32 \<Rightarrow> byte list \<Rightarrow> AbstractCostedCallbackRequest list \<Rightarrow> AbstractVRFOutput"
where
  "exampleOutput height delay vrfProof cbs =
     \<lparr>BlockHeight = height, out_ConfirmationDelay = delay, VRFProof = vrfProof,
      Callbacks = cbs\<rparr>"

definition exampleCallback :: "uint64 \<Rightarrow> uint64 \<Rightarrow> AbstractCostedCallbackRequest" where
  "exampleCallback height requestID =
     \<lparr>BeaconHeight = height, req_ConfirmationDelay = 3, SubscriptionID = 1, Price = 0,
      RequestID = requestID, NumWords = 1, Requester = [0xAA], Arguments = [],
      GasAllowance = 100000, RequestHeight = height - 1, RequestBlockHash = zeroHash\<rparr>"

definition oneBlockReport :: AbstractReport where
  "oneBlockReport = \<lparr>Outputs = [exampleOutput 90 3 [1] []]\<rparr>"

definition secondReport :: AbstractReport where
  "secondReport =
     \<lparr>Outputs = [exampleOutput 80 0 [] [exampleCallback 80 4], exampleOutput 90 3 [9] []]\<rparr>"

definition dupBlockReport :: AbstractReport where
  "dupBlockReport = \<lparr>Outputs = [exampleOutput 90 3 [1] [], exampleOutput 90 3 [2] []]\<rparr>"

definition dupCallbackReport :: AbstractReport where
  "dupCallbackReport =
     \<lparr>Outputs = [exampleOutput 90 3 [] [exampleCallback 90 7],
                 exampleOutput 95 3 [] [exampleCallback 90 7]]\<rparr>"

text \<open>
  ConfigSet decoders: one whose signers outnumber its transmitters, and one with as
  many of each.
\<close>

definition unevenConfigSet :: ConfigSet where
  "unevenConfigSet = \<lparr>cfg_Signers = [[0x51], [0x52]], cfg_Transmitters = [[0x71]]\<rparr>"

definition evenConfigSet :: ConfigSet where
  "evenConfigSet = \<lparr>cfg_Signers = [[0x51], [0x52]], cfg_Transmitters = [[0x71], [0x72]]\<rparr>"

definition unpackUneven :: "byte list \<Rightarrow> error + ConfigSet" where
  "unpackUneven bytes = Inr unevenConfigSet"

definition unpackEven :: "byte list \<Rightarrow> error + ConfigSet" where
  "unpackEven bytes = Inr evenConfigSet"

section \<open>Properties\<close>

subsection \<open>Big integers and eligibility\<close>

lemma big_Int64_exact: "0 \<le> d \<Longrightarrow> d < 2 ^ 63 \<Longrightarrow> sint (big_Int64 d) = d"
  apply (simp add: big_Int64_def sint_sbintrunc')
  apply (rule signed_take_bit_int_eq_self; simp)
  done

lemma big_Uint64_exact: "0 \<le> d \<Longrightarrow> d < 2 ^ 64 \<Longrightarrow> uint (big_Uint64 d) = d"
  by (simp add: big_Uint64_def uint_word_of_int take_bit_int_eq_self)

lemma uint_eq_sint_nonneg:
  fixes w :: "64 word"
  assumes "0 \<le> sint w"
  shows "uint w = sint w"
proof -
  have "sint w < 2 ^ 64"
    using sint_lt [of w] by simp
  then have "take_bit 64 (sint w) = sint w"
    using assms by (simp add: take_bit_int_eq_self)
  then show ?thesis
    using uint_sint [of w] by simp
qed

lemma uint_add_exact:
  fixes a b :: "64 word"
  shows "uint a + uint b < 2 ^ 64 \<Longrightarrow> uint (a + b) = uint a + uint b"
  using uint_add_lem [of a b] by simp

text \<open>
  Without wrap-around the two comparisons of \<open>isBlockEligible\<close> are comparisons of
  the numbers themselves.
\<close>

lemma isBlockEligible_exact:
  assumes d: "0 \<le> d" "d < 2 ^ 63" and nov: "uint n + d < 2 ^ 64"
  shows "isBlockEligible n d cur \<longleftrightarrow> (d < sint cur \<and> uint n + d < sint cur)"
proof -
  have i: "sint (big_Int64 d) = d" using d by (rule big_Int64_exact)
  have u: "uint (big_Uint64 d) = d" using d by (simp add: big_Uint64_exact)
  have s: "uint (n + big_Uint64 d) = uint n + d"
    using uint_add_exact [of n "big_Uint64 d"] nov u by simp
  show ?thesis
  proof (cases "d < sint cur")
    case True
    then have "uint cur = sint cur" using d by (simp add: uint_eq_sint_nonneg)
    then show ?thesis
      using True by (simp add: isBlockEligible_def word_sless_alt word_less_def i s)
  next
    case False
    then show ?thesis by (simp add: isBlockEligible_def word_sless_alt i)
  qed
qed

text \<open>
  C4, as stated, read over the integers: for every \<open>nextOutputHeight\<close> (uint64),
  \<open>confirmationDelay\<close> and \<open>currentHeight\<close> (int64), the predicate is true iff
  \<open>confirmationDelay < currentHeight\<close> and
  \<open>nextOutputHeight + confirmationDelay < currentHeight\<close>. It fails where the
  \<^verbatim>\<open>uint64\<close> addition wraps: at height \<open>2 ^ 64 - 1\<close>, delay 1 and current height 5 the
  sum wraps to 0, the predicate is true, and \<open>2 ^ 64\<close> is not below 5.
\<close>

theorem isBlockEligible_iff_counterexample:
  "\<not> (isBlockEligible 18446744073709551615 1 5 \<longleftrightarrow>
        ((1 :: int) < sint (5 :: int64) \<and>
         uint (18446744073709551615 :: uint64) + 1 < sint (5 :: int64)))"
  by (simp add: isBlockEligible_def big_Int64_def big_Uint64_def word_sless_alt)

text \<open>
  C4, amended: for every \<open>nextOutputHeight\<close> (uint64), every \<open>confirmationDelay\<close>
  from 0 to \<open>2 ^ 63 - 1\<close> and every \<open>currentHeight\<close> (int64) such that
  \<open>nextOutputHeight + confirmationDelay < 2 ^ 64\<close> (the addition does not wrap), the
  predicate is true iff \<open>confirmationDelay < currentHeight\<close> and
  \<open>nextOutputHeight + confirmationDelay < currentHeight\<close>.
\<close>

theorem isBlockEligible_iff:
  assumes "0 \<le> confirmationDelay" and "confirmationDelay < 2 ^ 63"
    and "uint nextOutputHeight + confirmationDelay < 2 ^ 64"
  shows "isBlockEligible nextOutputHeight confirmationDelay currentHeight \<longleftrightarrow>
           (confirmationDelay < sint currentHeight \<and>
            uint nextOutputHeight + confirmationDelay < sint currentHeight)"
  using assms by (rule isBlockEligible_exact)

theorem isBlockEligible_iff_witness:
  "(0 :: int) \<le> 3 \<and> (3 :: int) < 2 ^ 63 \<and> uint (90 :: uint64) + 3 < 2 ^ 64 \<and>
   (isBlockEligible 90 3 100 \<longleftrightarrow>
      ((3 :: int) < sint (100 :: int64) \<and> uint (90 :: uint64) + 3 < sint (100 :: int64)))"
proof -
  have a: "(0 :: int) \<le> 3" by simp
  have b: "(3 :: int) < 2 ^ 63" by simp
  have c: "uint (90 :: uint64) + 3 < 2 ^ 64" by simp
  from isBlockEligible_iff [OF a b c, of 100] show ?thesis using a b c by blast
qed

text \<open>
  C6, as stated, read over the integers: for every fixed \<open>nextOutputHeight\<close> (uint64)
  and \<open>confirmationDelay\<close>, the predicate is false for every
  \<open>currentHeight \<le> nextOutputHeight + confirmationDelay\<close> and true for every greater
  one. The first half fails where the addition wraps: height \<open>2 ^ 64 - 2\<close> with delay
  2 is eligible at current height 7, and 7 is not above \<open>2 ^ 64\<close>.
\<close>

theorem isBlockEligible_monotone_counterexample:
  "sint (7 :: int64) \<le> uint (18446744073709551614 :: uint64) + 2 \<and>
   isBlockEligible 18446744073709551614 2 7"
  by (simp add: isBlockEligible_def big_Int64_def big_Uint64_def word_sless_alt)

text \<open>
  C6, amended: for every fixed \<open>nextOutputHeight\<close> (uint64) and \<open>confirmationDelay\<close>
  from 0 to \<open>2 ^ 63 - 1\<close>, the predicate is true for every \<open>currentHeight\<close> greater than
  \<open>nextOutputHeight + confirmationDelay\<close>, and, when
  \<open>nextOutputHeight + confirmationDelay < 2 ^ 64\<close>, false for every
  \<open>currentHeight \<le> nextOutputHeight + confirmationDelay\<close>.
\<close>

theorem isBlockEligible_monotone:
  assumes d: "0 \<le> confirmationDelay" "confirmationDelay < 2 ^ 63"
  shows "(uint nextOutputHeight + confirmationDelay < sint currentHeight \<longrightarrow>
            isBlockEligible nextOutputHeight confirmationDelay currentHeight) \<and>
         (uint nextOutputHeight + confirmationDelay < 2 ^ 64 \<longrightarrow>
          sint currentHeight \<le> uint nextOutputHeight + confirmationDelay \<longrightarrow>
            \<not> isBlockEligible nextOutputHeight confirmationDelay currentHeight)"
proof (intro conjI impI)
  assume above: "uint nextOutputHeight + confirmationDelay < sint currentHeight"
  have "sint currentHeight < 2 ^ 63" using sint_lt [of currentHeight] by simp
  with above have nov: "uint nextOutputHeight + confirmationDelay < 2 ^ 64" by simp
  have "0 \<le> uint nextOutputHeight" by simp
  with above have "confirmationDelay < sint currentHeight" by linarith
  with above show "isBlockEligible nextOutputHeight confirmationDelay currentHeight"
    by (simp add: isBlockEligible_exact [OF d nov])
next
  assume nov: "uint nextOutputHeight + confirmationDelay < 2 ^ 64"
    and below: "sint currentHeight \<le> uint nextOutputHeight + confirmationDelay"
  then show "\<not> isBlockEligible nextOutputHeight confirmationDelay currentHeight"
    by (simp add: isBlockEligible_exact [OF d nov])
qed

theorem isBlockEligible_monotone_witness:
  "(0 :: int) \<le> 3 \<and> (3 :: int) < 2 ^ 63 \<and>
   uint (90 :: uint64) + 3 < sint (94 :: int64) \<and> isBlockEligible 90 3 94 \<and>
   uint (90 :: uint64) + 3 < 2 ^ 64 \<and> sint (93 :: int64) \<le> uint (90 :: uint64) + 3 \<and>
   \<not> isBlockEligible 90 3 93"
proof -
  have a: "(0 :: int) \<le> 3" by simp
  have b: "(3 :: int) < 2 ^ 63" by simp
  have above: "uint (90 :: uint64) + 3 < sint (94 :: int64)" by simp
  have nov: "uint (90 :: uint64) + 3 < 2 ^ 64" by simp
  have below: "sint (93 :: int64) \<le> uint (90 :: uint64) + 3" by simp
  from isBlockEligible_monotone [OF a b, of 90 94] above
  have yes: "isBlockEligible 90 3 94" by blast
  from isBlockEligible_monotone [OF a b, of 90 93] nov below
  have no: "\<not> isBlockEligible 90 3 93" by blast
  from yes no show ?thesis using a b above nov below by blast
qed

subsection \<open>Cache keys\<close>

text \<open>Every block and every callback has the same cache key, and computing it never fails.\<close>

lemma getCacheKey_ok: "getCacheKey x = Inr (BytesToHash [0x7B, 0x7D])"
  by (simp add: getCacheKey_def json_Marshal_def)

lemma addBlocks_no_error: "fst (addBlocks l bs h) = None"
  by (induction bs arbitrary: l) (simp_all add: getCacheKey_ok)

lemma addCallbacks_no_error: "fst (addCallbacks l cbs h) = None"
  by (induction cbs arbitrary: l) (simp_all add: getCacheKey_ok)

lemma addBlocks_not_Some: "addBlocks l bs h \<noteq> (Some e, l')"
  using addBlocks_no_error [of l bs h] by auto

lemma addCallbacks_not_Some: "addCallbacks l cbs h \<noteq> (Some e, l')"
  using addCallbacks_no_error [of l cbs h] by auto

lemma addBlocks_window:
  "evictionWindow (snd (addBlocks l bs h)) = evictionWindow l"
  by (induction bs arbitrary: l) (simp_all add: getCacheKey_ok AddItem_def)

lemma addBlocks_entry:
  assumes "bs \<noteq> []"
  shows "\<exists>e. entries (snd (addBlocks l bs h)) (BytesToHash [0x7B, 0x7D]) = Some e \<and>
              insertedAtHeight e = h"
  using assms
proof (induction bs arbitrary: l)
  case Nil
  then show ?case by simp
next
  case (Cons b bs)
  show ?case
  proof (cases bs)
    case Nil
    then show ?thesis by (simp add: getCacheKey_ok AddItem_def)
  next
    case (Cons b' bs')
    then show ?thesis using Cons.IH [of "AddItem l b (BytesToHash [0x7B, 0x7D]) h"]
      by (simp add: getCacheKey_ok)
  qed
qed

lemma EvictExpiredItems_keeps:
  assumes "entries l k = Some e" and "\<not> insertedAtHeight e + evictionWindow l <s h"
  shows "GetItem (EvictExpiredItems l h) k = Inr (entryKey e)"
  using assms by (simp add: GetItem_def EvictExpiredItems_def)

subsection \<open>ReportWillBeTransmitted: the conflict check\<close>

lemma checkCallbacks_error:
  "checkCallbacks c cbs acc = Inl e \<Longrightarrow> alreadyInFlight e"
  by (induction cbs arbitrary: acc) (auto simp: getCacheKey_ok split: sum.splits)

lemma checkOutputs_error:
  "checkOutputs c outs bs cbs = Inl e \<Longrightarrow> alreadyInFlight e"
  by (induction outs arbitrary: bs cbs)
     (auto simp: getCacheKey_ok split: sum.splits if_splits dest: checkCallbacks_error)

lemma checkOutputs_in_flight_block:
  assumes "out \<in> set outs" and "VRFProof out \<noteq> []"
    and "getCacheKey (blockToStore out) = Inr key"
    and "GetItem (toBeTransmittedBlocks c) key = Inr x"
  shows "\<exists>e. checkOutputs c outs bs cbs = Inl e"
  using assms
  by (induction outs arbitrary: bs cbs) (auto simp: getCacheKey_ok split: sum.splits)

lemma checkOutputs_keeps:
  "checkOutputs c outs bs cbs = Inr (bs', cbs') \<Longrightarrow> b \<in> set bs \<Longrightarrow> b \<in> set bs'"
  by (induction outs arbitrary: bs cbs) (fastforce split: sum.splits if_splits)+

lemma checkOutputs_collects:
  assumes "checkOutputs c outs bs cbs = Inr (bs', cbs')"
    and "out \<in> set outs" and "VRFProof out \<noteq> []"
  shows "blockToStore out \<in> set bs'"
  using assms
proof (induction outs arbitrary: bs cbs)
  case Nil
  then show ?case by simp
next
  case (Cons a outs)
  then show ?case
    by (auto split: sum.splits if_splits dest: checkOutputs_keeps)
qed

text \<open>
  A successful call stamps the key of each of its blocks with the latest height; the
  entry survives the eviction pass that ends the call unless
  \<open>latest + evictionWindow < latest\<close>.
\<close>

lemma ReportWillBeTransmitted_records_block:
  assumes first: "ReportWillBeTransmitted c0 report = (None, c1)"
    and out: "out \<in> set (Outputs report)" "VRFProof out \<noteq> []"
    and key: "getCacheKey (blockToStore out) = Inr key"
  shows "\<exists>latest. LatestBlock (lp c0) = Inr latest \<and>
           (\<not> latest + evictionWindow (toBeTransmittedBlocks c0) <s latest \<longrightarrow>
              (\<exists>y. GetItem (toBeTransmittedBlocks c1) key = Inr y))"
proof -
  from first obtain bs cbs latest where
    chk: "checkOutputs c0 (Outputs report) [] [] = Inr (bs, cbs)"
    and latest: "LatestBlock (lp c0) = Inr latest"
    and c1: "toBeTransmittedBlocks c1 =
               EvictExpiredItems (snd (addBlocks (toBeTransmittedBlocks c0) bs latest)) latest"
    by (auto simp: ReportWillBeTransmitted_def split: sum.splits prod.splits option.splits)
  from checkOutputs_collects [OF chk out] have "bs \<noteq> []" by auto
  from addBlocks_entry [OF this] obtain e where
    e: "entries (snd (addBlocks (toBeTransmittedBlocks c0) bs latest))
          (BytesToHash [0x7B, 0x7D]) = Some e"
       "insertedAtHeight e = latest"
    by blast
  have k: "key = BytesToHash [0x7B, 0x7D]" using key by (simp add: getCacheKey_ok)
  show ?thesis
    using latest e EvictExpiredItems_keeps [OF e(1), of latest]
    by (auto simp: c1 k addBlocks_window)
qed

lemmas example_report_simps =
  ReportWillBeTransmitted_def exampleCoordinator_def exampleOutput_def exampleCallback_def
  blockToStore_def callbackToStore_def getCacheKey_ok GetItem_def NewBlockCache_def
  AddItem_def EvictExpiredItems_def oneBlockReport_def secondReport_def dupBlockReport_def
  dupCallbackReport_def word_sless_alt

text \<open>
  C1: for every block B with a non-empty VRF proof, if \<open>ReportWillBeTransmitted\<close>
  succeeds on a report containing B, then a second call on a report containing B with
  a non-empty proof, made in a state \<open>c2\<close> where B's cache entry has not been evicted,
  fails with an "already in flight" error and leaves the coordinator, both caches
  included, as it was. The first conjunct says that the successful call did record B:
  its entry is in the cache the call leaves behind unless its own eviction pass removed
  it.
\<close>

theorem no_duplicate_transmission:
  assumes first: "ReportWillBeTransmitted c0 report1 = (None, c1)"
    and in1: "out1 \<in> set (Outputs report1)" "VRFProof out1 \<noteq> []"
    and in2: "out2 \<in> set (Outputs report2)" "VRFProof out2 \<noteq> []"
    and same: "blockToStore out2 = blockToStore out1"
    and key: "getCacheKey (blockToStore out1) = Inr key"
    and notEvicted: "GetItem (toBeTransmittedBlocks c2) key = Inr x"
  shows "(\<exists>latest. LatestBlock (lp c0) = Inr latest \<and>
           (\<not> latest + evictionWindow (toBeTransmittedBlocks c0) <s latest \<longrightarrow>
              (\<exists>y. GetItem (toBeTransmittedBlocks c1) key = Inr y))) \<and>
         (\<exists>err. ReportWillBeTransmitted c2 report2 = (Some err, c2) \<and> alreadyInFlight err)"
proof
  show "\<exists>latest. LatestBlock (lp c0) = Inr latest \<and>
           (\<not> latest + evictionWindow (toBeTransmittedBlocks c0) <s latest \<longrightarrow>
              (\<exists>y. GetItem (toBeTransmittedBlocks c1) key = Inr y))"
    using first in1 key by (rule ReportWillBeTransmitted_records_block)
next
  have "getCacheKey (blockToStore out2) = Inr key" using key same by simp
  from checkOutputs_in_flight_block [OF in2 this notEvicted]
  obtain e where e: "checkOutputs c2 (Outputs report2) [] [] = Inl e" by blast
  then have "alreadyInFlight e" by (rule checkOutputs_error)
  with e show "\<exists>err. ReportWillBeTransmitted c2 report2 = (Some err, c2) \<and> alreadyInFlight err"
    by (simp add: ReportWillBeTransmitted_def)
qed

theorem no_duplicate_transmission_witness:
  "ReportWillBeTransmitted exampleCoordinator oneBlockReport =
     (None, snd (ReportWillBeTransmitted exampleCoordinator oneBlockReport)) \<and>
   exampleOutput 90 3 [1] [] \<in> set (Outputs oneBlockReport) \<and>
   VRFProof (exampleOutput 90 3 [1] []) \<noteq> [] \<and>
   exampleOutput 90 3 [9] [] \<in> set (Outputs secondReport) \<and>
   VRFProof (exampleOutput 90 3 [9] []) \<noteq> [] \<and>
   blockToStore (exampleOutput 90 3 [9] []) = blockToStore (exampleOutput 90 3 [1] []) \<and>
   getCacheKey (blockToStore (exampleOutput 90 3 [1] [])) = Inr (BytesToHash [0x7B, 0x7D]) \<and>
   GetItem (toBeTransmittedBlocks (snd (ReportWillBeTransmitted exampleCoordinator oneBlockReport)))
     (BytesToHash [0x7B, 0x7D]) = Inr (blockToStore (exampleOutput 90 3 [1] [])) \<and>
   (\<exists>err. ReportWillBeTransmitted
            (snd (ReportWillBeTransmitted exampleCoordinator oneBlockReport)) secondReport
          = (Some err, snd (ReportWillBeTransmitted exampleCoordinator oneBlockReport)) \<and>
          alreadyInFlight err)"
proof -
  let ?c1 = "snd (ReportWillBeTransmitted exampleCoordinator oneBlockReport)"
  have first: "ReportWillBeTransmitted exampleCoordinator oneBlockReport = (None, ?c1)"
    by (simp add: example_report_simps)
  have in1: "exampleOutput 90 3 [1] [] \<in> set (Outputs oneBlockReport)"
    by (simp add: oneBlockReport_def)
  have p1: "VRFProof (exampleOutput 90 3 [1] []) \<noteq> []" by (simp add: exampleOutput_def)
  have in2: "exampleOutput 90 3 [9] [] \<in> set (Outputs secondReport)"
    by (simp add: secondReport_def)
  have p2: "VRFProof (exampleOutput 90 3 [9] []) \<noteq> []" by (simp add: exampleOutput_def)
  have same: "blockToStore (exampleOutput 90 3 [9] []) = blockToStore (exampleOutput 90 3 [1] [])"
    by (simp add: blockToStore_def exampleOutput_def)
  have key: "getCacheKey (blockToStore (exampleOutput 90 3 [1] [])) = Inr (BytesToHash [0x7B, 0x7D])"
    by (rule getCacheKey_ok)
  have present: "GetItem (toBeTransmittedBlocks ?c1) (BytesToHash [0x7B, 0x7D])
                   = Inr (blockToStore (exampleOutput 90 3 [1] []))"
    by (simp add: example_report_simps)
  from no_duplicate_transmission [OF first in1 p1 in2 p2 same key present]
  show ?thesis using first in1 p1 in2 p2 same key present by blast
qed

text \<open>
  C2: for every report, whenever \<open>ReportWillBeTransmitted\<close> returns an error (a
  conflict on a block or callback key, or a failure to obtain the latest block), the
  coordinator it leaves is the one it was given: neither cache is mutated.
\<close>

theorem ReportWillBeTransmitted_error_no_mutation:
  "ReportWillBeTransmitted c report = (Some err, c') \<Longrightarrow> c' = c"
  by (auto simp: ReportWillBeTransmitted_def addBlocks_not_Some addCallbacks_not_Some
      split: sum.splits prod.splits option.splits)

theorem ReportWillBeTransmitted_error_no_mutation_witness:
  "ReportWillBeTransmitted
     (exampleCoordinator\<lparr>lp := (lp exampleCoordinator)\<lparr>LatestBlock := Inl (External ''canceled'')\<rparr>\<rparr>)
     dupBlockReport
   = (Some (Wrap (External ''canceled'') ''Getting latest block in ReportWillBeTransmitted''),
      exampleCoordinator\<lparr>lp := (lp exampleCoordinator)\<lparr>LatestBlock := Inl (External ''canceled'')\<rparr>\<rparr>)"
proof -
  let ?c = "exampleCoordinator\<lparr>lp := (lp exampleCoordinator)\<lparr>LatestBlock := Inl (External ''canceled'')\<rparr>\<rparr>"
  have "fst (ReportWillBeTransmitted ?c dupBlockReport) =
          Some (Wrap (External ''canceled'') ''Getting latest block in ReportWillBeTransmitted'')"
    by (simp add: example_report_simps)
  then have run: "ReportWillBeTransmitted ?c dupBlockReport =
      (Some (Wrap (External ''canceled'') ''Getting latest block in ReportWillBeTransmitted''),
       snd (ReportWillBeTransmitted ?c dupBlockReport))"
    by (metis prod.collapse)
  from ReportWillBeTransmitted_error_no_mutation [OF run] run show ?thesis by simp
qed

text \<open>
  C9: there is a report in which one block key (same height and confirmation delay,
  each with a non-empty proof) appears in two distinct outputs, and a coordinator whose
  block cache does not hold that key, on which \<open>ReportWillBeTransmitted\<close> succeeds;
  and likewise a report in which one callback key appears twice. Each key is checked
  against the cache as it was before the call, and the cache holds the key afterwards.
\<close>

theorem in_report_duplicate_not_detected:
  "Outputs dupBlockReport = [exampleOutput 90 3 [1] [], exampleOutput 90 3 [2] []] \<and>
   exampleOutput 90 3 [1] [] \<noteq> exampleOutput 90 3 [2] [] \<and>
   blockToStore (exampleOutput 90 3 [1] []) = blockToStore (exampleOutput 90 3 [2] []) \<and>
   VRFProof (exampleOutput 90 3 [1] []) \<noteq> [] \<and> VRFProof (exampleOutput 90 3 [2] []) \<noteq> [] \<and>
   getCacheKey (blockToStore (exampleOutput 90 3 [1] [])) = Inr (BytesToHash [0x7B, 0x7D]) \<and>
   GetItem (toBeTransmittedBlocks exampleCoordinator) (BytesToHash [0x7B, 0x7D])
     = Inl ItemNotFound \<and>
   fst (ReportWillBeTransmitted exampleCoordinator dupBlockReport) = None \<and>
   GetItem (toBeTransmittedBlocks (snd (ReportWillBeTransmitted exampleCoordinator dupBlockReport)))
     (BytesToHash [0x7B, 0x7D]) = Inr (blockToStore (exampleOutput 90 3 [1] [])) \<and>
   Outputs dupCallbackReport =
     [exampleOutput 90 3 [] [exampleCallback 90 7], exampleOutput 95 3 [] [exampleCallback 90 7]] \<and>
   getCacheKey (callbackToStore (exampleCallback 90 7)) = Inr (BytesToHash [0x7B, 0x7D]) \<and>
   GetItem (toBeTransmittedCallbacks exampleCoordinator) (BytesToHash [0x7B, 0x7D])
     = Inl ItemNotFound \<and>
   fst (ReportWillBeTransmitted exampleCoordinator dupCallbackReport) = None \<and>
   GetItem (toBeTransmittedCallbacks
              (snd (ReportWillBeTransmitted exampleCoordinator dupCallbackReport)))
     (BytesToHash [0x7B, 0x7D]) = Inr (callbackToStore (exampleCallback 90 7))"
  by (simp add: example_report_simps)

end
